theory Spec2Isabelle
  imports Main
begin

section \<open>JavaScript values\<close>

text \<open>
  The session payload and the bodies of error responses are parsed JSON that the code
  inspects by duck typing (\<^verbatim>\<open>data.client\<close>, \<^verbatim>\<open>data.message || data.error\<close>), so they are
  modelled as JavaScript values. Numbers in these payloads are counts and codes and are
  modelled as integers. An object is an association list of its own properties.
\<close>

datatype jsval =
    JUndefined
  | JNull
  | JBool bool
  | JNum int
  | JStr string
  | JArr "jsval list"
  | JObj "(string \<times> jsval) list"

text \<open>ToBoolean: \<^verbatim>\<open>undefined\<close>, \<^verbatim>\<open>null\<close>, \<^verbatim>\<open>false\<close>, \<^verbatim>\<open>0\<close> and the empty string
  are falsy, every array and object is truthy.\<close>

fun truthy :: "jsval \<Rightarrow> bool" where
  "truthy JUndefined = False"
| "truthy JNull = False"
| "truthy (JBool b) = b"
| "truthy (JNum n) = (n \<noteq> 0)"
| "truthy (JStr s) = (s \<noteq> [])"
| "truthy (JArr xs) = True"
| "truthy (JObj kvs) = True"

text \<open>The operator \<^verbatim>\<open>a || b\<close>: the left operand when it is truthy, else the right one.\<close>

definition js_or :: "jsval \<Rightarrow> jsval \<Rightarrow> jsval" where
  "js_or a b = (if truthy a then a else b)"

text \<open>\<^verbatim>\<open>undefined\<close> and \<^verbatim>\<open>null\<close>: reading a property of either throws a TypeError.\<close>

fun nullish :: "jsval \<Rightarrow> bool" where
  "nullish JUndefined = True"
| "nullish JNull = True"
| "nullish v = False"

text \<open>
  Reading a property \<^verbatim>\<open>v.k\<close> of a value that is not nullish. The keys the code reads
  (\<^verbatim>\<open>client\<close>, \<^verbatim>\<open>id\<close>, \<^verbatim>\<open>message\<close>, \<^verbatim>\<open>logout_url\<close>, ...) are not properties of the
  String, Number, Boolean or Array prototypes, so every value but an object that owns the key
  gives \<^verbatim>\<open>undefined\<close>.
\<close>

fun get_prop :: "jsval \<Rightarrow> string \<Rightarrow> jsval" where
  "get_prop (JObj kvs) k = (case map_of kvs k of Some v \<Rightarrow> v | None \<Rightarrow> JUndefined)"
| "get_prop v k = JUndefined"

text \<open>Decimal digits of a natural number, as a template literal prints a status code.\<close>

fun string_of_nat :: "nat \<Rightarrow> string" where
  "string_of_nat n =
     (if n < 10 then [char_of (48 + n)]
      else string_of_nat (n div 10) @ [char_of (48 + n mod 10)])"

definition string_of_int :: "int \<Rightarrow> string" where
  "string_of_int i = (if i < 0 then CHR ''-'' # string_of_nat (nat (- i)) else string_of_nat (nat i))"

fun join_commas :: "string list \<Rightarrow> string" where
  "join_commas [] = []"
| "join_commas [s] = s"
| "join_commas (s # t # ss) = s @ '','' @ join_commas (t # ss)"

text \<open>ToString, as an assignment to \<^verbatim>\<open>window.location.href\<close> applies it.\<close>

fun js_to_string :: "jsval \<Rightarrow> string" where
  "js_to_string JUndefined = ''undefined''"
| "js_to_string JNull = ''null''"
| "js_to_string (JBool b) = (if b then ''true'' else ''false'')"
| "js_to_string (JNum n) = string_of_int n"
| "js_to_string (JStr s) = s"
| "js_to_string (JArr xs) =
     join_commas (map (\<lambda>v. if nullish v then [] else js_to_string v) xs)"
| "js_to_string (JObj kvs) = ''[object Object]''"

text \<open>
  \<^verbatim>\<open>encodeURIComponent\<close> on a well-formed string, read as its UTF-8 bytes: the unreserved
  characters \<^verbatim>\<open>A-Z a-z 0-9 - _ . ! ~ * ' ( )\<close> stay, every other byte becomes \<^verbatim>\<open>%XX\<close>.
\<close>

definition hex_digit :: "nat \<Rightarrow> char" where
  "hex_digit n = (if n < 10 then char_of (48 + n) else char_of (55 + n))"

definition uri_unreserved :: "char \<Rightarrow> bool" where
  "uri_unreserved c =
     (let n = (of_char c :: nat) in
        (65 \<le> n \<and> n \<le> 90) \<or> (97 \<le> n \<and> n \<le> 122) \<or> (48 \<le> n \<and> n \<le> 57)
        \<or> n \<in> {45, 95, 46, 33, 126, 42, 39, 40, 41})"

definition encodeURIComponent :: "string \<Rightarrow> string" where
  "encodeURIComponent s =
     concat (map (\<lambda>c. if uri_unreserved c then [c]
                      else [CHR ''%'', hex_digit (of_char c div 16), hex_digit (of_char c mod 16)]) s)"


section \<open>Promises\<close>

text \<open>How an awaited promise settles: with a value, or with the thrown value.\<close>

datatype ('a, 'e) settled = Fulfilled 'a | Rejected 'e


section \<open>API access layer\<close>

subsection \<open>Configuration\<close>

text \<open>
  \<^verbatim>\<open>import.meta.env\<close> and the page origin, read once when the module loads. A variable
  that is not set is \<^verbatim>\<open>None\<close>; a variable set to the empty string is falsy as well.
\<close>

record env =
  MODE :: string
  VITE_BASE_URL :: "string option"
  VITE_API_BASE_PATH :: "string option"
  VITE_BACKEND_URL :: "string option"
  VITE_AUTH_API_BASE_PATH :: "string option"
  VITE_AUTH_URL :: "string option"
  VITE_UI_BASE_PATH :: "string option"
  location_origin :: string

definition truthy_str :: "string option \<Rightarrow> bool" where
  "truthy_str v = (case v of None \<Rightarrow> False | Some s \<Rightarrow> s \<noteq> [])"

text \<open>\<^verbatim>\<open>x || d\<close> on an optional string.\<close>

definition or_default :: "string option \<Rightarrow> string \<Rightarrow> string" where
  "or_default v d = (case v of None \<Rightarrow> d | Some s \<Rightarrow> if s \<noteq> [] then s else d)"

definition baseUrl :: "env \<Rightarrow> string" where
  "baseUrl e = or_default (VITE_BASE_URL e) (location_origin e)"

definition getApiBaseUrl :: "env \<Rightarrow> string" where
  "getApiBaseUrl e =
     (let apiBasePath = or_default (VITE_API_BASE_PATH e) ''/groups'' in
      if MODE e = ''development'' \<and> truthy_str (VITE_BACKEND_URL e)
      then or_default (VITE_BACKEND_URL e) []
      else baseUrl e @ apiBasePath)"

definition getAuthApiBaseUrl :: "env \<Rightarrow> string" where
  "getAuthApiBaseUrl e =
     (let authApiBasePath = or_default (VITE_AUTH_API_BASE_PATH e) ''/authn'' in
      if MODE e = ''development'' \<and> truthy_str (VITE_AUTH_URL e)
      then or_default (VITE_AUTH_URL e) []
      else baseUrl e @ authApiBasePath)"

definition API_BASE_URL :: "env \<Rightarrow> string" where
  "API_BASE_URL e = getApiBaseUrl e"

definition AUTH_API_BASE_URL :: "env \<Rightarrow> string" where
  "AUTH_API_BASE_URL e = getAuthApiBaseUrl e"

subsection \<open>Errors and the browser\<close>

text \<open>
  The error object the HTTP client rejects with: \<^verbatim>\<open>error.response\<close> is present when the
  server answered, \<^verbatim>\<open>error.request\<close> is truthy when the request was sent, and
  \<^verbatim>\<open>error.userMessage\<close> is the property the response interceptor attaches.
\<close>

record http_response =
  status :: nat
  data :: jsval

record axios_error =
  response :: "http_response option"
  request :: bool
  userMessage :: jsval

text \<open>What the code throws and catches: an error of the HTTP client, or a TypeError of the
  runtime (a property read on \<^verbatim>\<open>undefined\<close> or \<^verbatim>\<open>null\<close>).\<close>

datatype thrown = AxiosError axios_error | TypeError

text \<open>\<^verbatim>\<open>error.response?.status\<close>, of an error of the HTTP client and of any caught value.\<close>

definition error_status :: "axios_error \<Rightarrow> nat option" where
  "error_status e = (case response e of None \<Rightarrow> None | Some r \<Rightarrow> Some (status r))"

fun response_status :: "thrown \<Rightarrow> nat option" where
  "response_status (AxiosError e) = error_status e"
| "response_status TypeError = None"

text \<open>\<^verbatim>\<open>error.userMessage\<close> of a caught value.\<close>

fun thrown_userMessage :: "thrown \<Rightarrow> jsval" where
  "thrown_userMessage (AxiosError e) = userMessage e"
| "thrown_userMessage TypeError = JUndefined"

text \<open>The browser as the code acts on it: the address the window is sent to, and the
  lines written with \<^verbatim>\<open>console.error\<close> (label and value).\<close>

record browser =
  location_href :: string
  console_error :: "(string \<times> thrown) list"

subsection \<open>Response interceptor\<close>

text \<open>The two client instances, \<^verbatim>\<open>api\<close> and \<^verbatim>\<open>auth\<close>; \<^verbatim>\<open>setupInterceptors\<close> is applied to
  both with the authentication base URL.\<close>

datatype axios_instance = Api | Auth

fun interceptor_authBaseUrl :: "env \<Rightarrow> axios_instance \<Rightarrow> string" where
  "interceptor_authBaseUrl e Api = AUTH_API_BASE_URL e"
| "interceptor_authBaseUrl e Auth = AUTH_API_BASE_URL e"

text \<open>Lines 76 to 84 of the API module: the message for an error other than 401. The
  initial value of \<^verbatim>\<open>userMessage\<close> stays when neither branch is taken.\<close>

definition no_body_message :: "axios_error \<Rightarrow> jsval" where
  "no_body_message e =
     (if request e then
        JStr ''Unable to connect to server. Please check your internet connection.''
      else JStr ''An unexpected error occurred'')"

definition compute_userMessage :: "axios_error \<Rightarrow> jsval" where
  "compute_userMessage e =
     (case response e of
        None \<Rightarrow> no_body_message e
      | Some r \<Rightarrow>
          if truthy (data r) then
            js_or (js_or (js_or (get_prop (data r) ''message'') (get_prop (data r) ''error''))
                         (get_prop (data r) ''detail''))
                  (JStr (''Server error ('' @ string_of_nat (status r) @ '')''))
          else no_body_message e)"

text \<open>The rejection handler of the response interceptor (lines 70 to 88).\<close>

definition response_onRejected ::
  "string \<Rightarrow> axios_error \<Rightarrow> browser \<Rightarrow> browser \<times> ('r, thrown) settled" where
  "response_onRejected authBaseUrl e w =
     (if error_status e = Some 401 then
        (w\<lparr>location_href :=
             authBaseUrl @ ''/login?referrer='' @ encodeURIComponent (location_href w)\<rparr>,
         Rejected (AxiosError e))
      else
        (w, Rejected (AxiosError (e\<lparr>userMessage := compute_userMessage e\<rparr>))))"

text \<open>The interceptor on a settled request: a response passes, an error goes through the
  rejection handler.\<close>

definition response_interceptor ::
  "env \<Rightarrow> axios_instance \<Rightarrow> ('r, axios_error) settled \<Rightarrow> browser
     \<Rightarrow> browser \<times> ('r, thrown) settled" where
  "response_interceptor ev inst r w =
     (case r of
        Fulfilled resp \<Rightarrow> (w, Fulfilled resp)
      | Rejected e \<Rightarrow> response_onRejected (interceptor_authBaseUrl ev inst) e w)"


section \<open>Session manager\<close>

subsection \<open>The User record\<close>

text \<open>The fields of \<^verbatim>\<open>User\<close> hold what the payload holds: the code copies them
  without checking their types.\<close>

record User =
  User_id :: jsval
  email :: jsval
  preferred_username :: jsval
  full_name :: jsval
  email_verified :: jsval
  group_memberships :: jsval
  pending_invitations_count :: jsval

text \<open>Lines 40 to 65 of \<^verbatim>\<open>fetchUser\<close>: one User from either payload shape. The payload is
  not nullish here (the caller's read of \<^verbatim>\<open>data.client\<close> has not thrown).\<close>

definition normalize_session :: "jsval \<Rightarrow> User" where
  "normalize_session d =
     (if truthy (get_prop d ''client'') then
        (let client = get_prop d ''client'' in
         \<lparr> User_id = get_prop client ''id'',
           email = get_prop client ''email'',
           preferred_username = get_prop client ''display_name'',
           full_name = get_prop client ''full_name'',
           email_verified = js_or (get_prop d ''email_verified'') (JStr ''unknown''),
           group_memberships = js_or (get_prop d ''group_memberships'') (JArr []),
           pending_invitations_count = js_or (get_prop d ''pending_invitations_count'') (JNum 0) \<rparr>)
      else
         \<lparr> User_id = get_prop d ''id'',
           email = get_prop d ''email'',
           preferred_username = get_prop d ''preferred_username'',
           full_name = get_prop d ''full_name'',
           email_verified = get_prop d ''email_verified'',
           group_memberships = js_or (get_prop d ''group_memberships'') (JArr []),
           pending_invitations_count = js_or (get_prop d ''pending_invitations_count'') (JNum 0) \<rparr>)"

subsection \<open>Payloads of the two shapes\<close>

text \<open>The user fields a session payload carries. A field that is absent from the payload
  is \<^verbatim>\<open>JUndefined\<close> here and is left out of the JSON object.\<close>

record session_fields =
  sf_id :: jsval
  sf_email :: jsval
  sf_username :: jsval
  sf_full_name :: jsval
  sf_email_verified :: jsval
  sf_group_memberships :: jsval
  sf_pending_invitations_count :: jsval

definition field :: "string \<Rightarrow> jsval \<Rightarrow> (string \<times> jsval) list" where
  "field k v = (if v = JUndefined then [] else [(k, v)])"

text \<open>The legacy shape: identity under \<^verbatim>\<open>client\<close>, with the name as \<^verbatim>\<open>display_name\<close>.\<close>

definition legacy_payload :: "session_fields \<Rightarrow> jsval" where
  "legacy_payload f =
     JObj ([(''client'', JObj (field ''id'' (sf_id f) @ field ''email'' (sf_email f)
                              @ field ''display_name'' (sf_username f)
                              @ field ''full_name'' (sf_full_name f)))]
           @ field ''email_verified'' (sf_email_verified f)
           @ field ''group_memberships'' (sf_group_memberships f)
           @ field ''pending_invitations_count'' (sf_pending_invitations_count f))"

text \<open>The flat shape: every field at top level, with the name as \<^verbatim>\<open>preferred_username\<close>.\<close>

definition flat_payload :: "session_fields \<Rightarrow> jsval" where
  "flat_payload f =
     JObj (field ''id'' (sf_id f) @ field ''email'' (sf_email f)
           @ field ''preferred_username'' (sf_username f)
           @ field ''full_name'' (sf_full_name f)
           @ field ''email_verified'' (sf_email_verified f)
           @ field ''group_memberships'' (sf_group_memberships f)
           @ field ''pending_invitations_count'' (sf_pending_invitations_count f))"

subsection \<open>AuthProvider\<close>

record auth_state =
  user :: "User option"
  loading :: bool
  error :: "string option"

text \<open>\<^verbatim>\<open>useState\<close> initial values.\<close>

definition auth_initial :: auth_state where
  "auth_initial = \<lparr> user = None, loading = True, error = None \<rparr>"

text \<open>\<^verbatim>\<open>authAPI.getCurrentUser\<close>: a GET on the \<^verbatim>\<open>auth\<close> instance, so the transport's outcome
  passes through the response interceptor.\<close>

definition getCurrentUser ::
  "env \<Rightarrow> (http_response, axios_error) settled \<Rightarrow> browser
     \<Rightarrow> browser \<times> (http_response, thrown) settled" where
  "getCurrentUser ev r w = response_interceptor ev Auth r w"

text \<open>The body of the \<^verbatim>\<open>try\<close> block after the request has settled: the User to store, or
  the value thrown (the rejection of the request, or the TypeError of \<^verbatim>\<open>data.client\<close> on a
  nullish body).\<close>

definition fetchUser_try :: "(http_response, thrown) settled \<Rightarrow> thrown + User" where
  "fetchUser_try r =
     (case r of
        Rejected err \<Rightarrow> Inl err
      | Fulfilled resp \<Rightarrow>
          if nullish (data resp) then Inl TypeError else Inr (normalize_session (data resp)))"

definition fetchUser ::
  "env \<Rightarrow> (http_response, axios_error) settled \<Rightarrow> auth_state \<times> browser
     \<Rightarrow> auth_state \<times> browser" where
  "fetchUser ev r sw =
     (let s1 = (fst sw)\<lparr>loading := True\<rparr>;
          s2 = s1\<lparr>error := None\<rparr>;
          (w1, r1) = getCurrentUser ev r (snd sw);
          (s3, w3) =
            (case fetchUser_try r1 of
               Inr u \<Rightarrow> (s2\<lparr>user := Some u\<rparr>, w1)
             | Inl err \<Rightarrow>
                 if response_status err = Some 404 then (s2\<lparr>user := None\<rparr>, w1)
                 else (s2\<lparr>error := Some ''Failed to fetch user information''\<rparr>,
                       w1\<lparr>console_error := console_error w1 @ [(''Auth error:'', err)]\<rparr>))
      in (s3\<lparr>loading := False\<rparr>, w3))"

text \<open>\<^verbatim>\<open>refreshUser\<close> awaits \<^verbatim>\<open>fetchUser\<close>.\<close>

definition refreshUser ::
  "env \<Rightarrow> (http_response, axios_error) settled \<Rightarrow> auth_state \<times> browser
     \<Rightarrow> auth_state \<times> browser" where
  "refreshUser ev r sw = fetchUser ev r sw"

subsection \<open>Login and logout\<close>

definition authAPI_login :: "env \<Rightarrow> string option \<Rightarrow> browser \<Rightarrow> browser" where
  "authAPI_login ev referrer w =
     (let uiBasePath = or_default (VITE_UI_BASE_PATH ev) ''/deriva/apps'';
          defaultReferrer = location_origin ev @ uiBasePath @ ''/'';
          redirect = or_default referrer defaultReferrer
      in w\<lparr>location_href :=
             AUTH_API_BASE_URL ev @ ''/login?referrer='' @ encodeURIComponent redirect\<rparr>)"

text \<open>
  \<^verbatim>\<open>authAPI.logout\<close>. The transport answers the GET on \<^verbatim>\<open>/logout\<close> as a function of the
  \<^verbatim>\<open>redirect\<close> parameter sent. The result is how the promise of \<^verbatim>\<open>logout\<close> itself settles.
\<close>

definition authAPI_logout ::
  "env \<Rightarrow> (string \<Rightarrow> (http_response, axios_error) settled) \<Rightarrow> string option \<Rightarrow> browser
     \<Rightarrow> browser \<times> (unit, thrown) settled" where
  "authAPI_logout ev transport redirectUrl w =
     (let uiBasePath = or_default (VITE_UI_BASE_PATH ev) ''/deriva/apps'';
          defaultRedirect = location_origin ev @ uiBasePath @ ''/'';
          redirect = or_default redirectUrl defaultRedirect;
          (w1, r1) = response_interceptor ev Auth (transport redirect) w
      in case r1 of
           Fulfilled resp \<Rightarrow>
             if truthy (data resp) \<and> truthy (get_prop (data resp) ''logout_url'')
             then (w1\<lparr>location_href := js_to_string (get_prop (data resp) ''logout_url'')\<rparr>,
                   Fulfilled ())
             else (w1, Fulfilled ())
         | Rejected err \<Rightarrow>
             (w1\<lparr>console_error := console_error w1 @ [(''Logout error:'', err)]\<rparr>,
              Fulfilled ()))"

text \<open>\<^verbatim>\<open>logout\<close> of the AuthProvider awaits \<^verbatim>\<open>authAPI.logout\<close> and touches no state.\<close>

definition AuthProvider_logout ::
  "env \<Rightarrow> (string \<Rightarrow> (http_response, axios_error) settled) \<Rightarrow> string option
     \<Rightarrow> auth_state \<times> browser \<Rightarrow> (auth_state \<times> browser) \<times> (unit, thrown) settled" where
  "AuthProvider_logout ev transport redirectUrl sw =
     (let (w1, r) = authAPI_logout ev transport redirectUrl (snd sw) in ((fst sw, w1), r))"


section \<open>Group detail page\<close>

subsection \<open>Entities\<close>

text \<open>The interfaces of the API module. Roles and statuses are the strings the server
  sent; the page compares them with \<^verbatim>\<open>===\<close>.\<close>

record GroupMembership =
  m_group_id :: string
  m_user_id :: string
  m_user_email :: string
  m_role :: string
  m_joined_at :: string
  m_updated_at :: string
  m_added_by :: string
  m_metadata :: jsval

record Group =
  g_id :: string
  g_name :: string
  g_description :: string
  g_visibility :: string
  g_created_at :: string
  g_updated_at :: string
  g_created_by :: string
  g_metadata :: jsval
  g_membership :: "GroupMembership option"
  g_member_count :: "int option"
  g_pending_invitations :: "int option"
  g_role_distribution :: "jsval option"

record GroupInvitation =
  inv_id :: string
  inv_group_id :: string
  inv_email :: string
  inv_role :: string
  inv_token :: string
  inv_created_at :: string
  inv_expires_at :: string
  inv_status :: string
  inv_invited_by :: string
  inv_accepted_at :: "string option"
  inv_accepted_by :: "string option"
  inv_metadata :: jsval
  inv_group :: "Group option"

record JoinRequest =
  jr_id :: string
  jr_group_id :: string
  jr_user_id :: string
  jr_user_email :: string
  jr_user_name :: string
  jr_message :: string
  jr_token :: string
  jr_created_at :: string
  jr_expires_at :: string
  jr_status :: string
  jr_reviewed_at :: "string option"
  jr_reviewed_by :: "string option"
  jr_reviewer_comment :: string
  jr_metadata :: jsval
  jr_group :: "Group option"

subsection \<open>Requests and effects\<close>

text \<open>The calls of \<^verbatim>\<open>groupsAPI\<close> and \<^verbatim>\<open>joinRequestsAPI\<close> that the page issues.\<close>

datatype request =
    GetGroup string
  | GetGroupMembers string
  | GetGroupInvitations string
  | GetGroupJoinRequests string
  | DeleteGroup string
  | RemoveGroupMember string string
  | RevokeInvitation string string
  | DenyJoinRequest string string string

text \<open>What the page does to the outside, in order: network calls, the confirmation dialog,
  toasts, navigation and console lines.\<close>

datatype effect =
    Request request
  | Confirm string
  | ToastSuccess string
  | ToastError jsval
  | Navigate string
  | ConsoleError string thrown

text \<open>The API layer as the page sees it: how each call's promise settles, given everything
  the page has done so far (so that a reload after a change may see other data).\<close>

record server =
  getGroup :: "effect list \<Rightarrow> string \<Rightarrow> (Group, thrown) settled"
  getGroupMembers :: "effect list \<Rightarrow> string \<Rightarrow> (GroupMembership list, thrown) settled"
  getGroupInvitations :: "effect list \<Rightarrow> string \<Rightarrow> (GroupInvitation list, thrown) settled"
  getGroupJoinRequests :: "effect list \<Rightarrow> string \<Rightarrow> (JoinRequest list, thrown) settled"
  deleteGroup :: "effect list \<Rightarrow> string \<Rightarrow> (unit, thrown) settled"
  removeGroupMember :: "effect list \<Rightarrow> string \<Rightarrow> string \<Rightarrow> (unit, thrown) settled"
  revokeInvitation :: "effect list \<Rightarrow> string \<Rightarrow> string \<Rightarrow> (unit, thrown) settled"
  denyJoinRequest :: "effect list \<Rightarrow> string \<Rightarrow> string \<Rightarrow> string \<Rightarrow> (unit, thrown) settled"

subsection \<open>Component state\<close>

datatype tab = Members_tab | Invitations_tab | Requests_tab

record page =
  group :: "Group option"
  members :: "GroupMembership list"
  invitations :: "GroupInvitation list"
  joinRequests :: "JoinRequest list"
  page_loading :: bool
  activeTab :: tab
  showInviteModal :: bool
  showEditModal :: bool
  log :: "effect list"

text \<open>\<^verbatim>\<open>useState\<close> initial values (lines 44 to 51), with nothing done yet.\<close>

definition page_initial :: page where
  "page_initial =
     \<lparr> group = None, members = [], invitations = [], joinRequests = [], page_loading = True,
       activeTab = Members_tab, showInviteModal = False, showEditModal = False, log = [] \<rparr>"

definition emit :: "effect \<Rightarrow> page \<Rightarrow> page" where
  "emit e s = s\<lparr>log := log s @ [e]\<rparr>"

text \<open>What a call of a handler added to the log.\<close>

definition new_effects :: "page \<Rightarrow> page \<Rightarrow> effect list" where
  "new_effects s s' = drop (length (log s)) (log s')"

fun is_request :: "effect \<Rightarrow> bool" where
  "is_request (Request r) = True"
| "is_request e = False"

text \<open>The network calls among some effects, in order.\<close>

fun requests_of :: "effect list \<Rightarrow> request list" where
  "requests_of [] = []"
| "requests_of (Request r # es) = r # requests_of es"
| "requests_of (e # es) = requests_of es"

subsection \<open>loadGroupData\<close>

text \<open>Line 75: \<^verbatim>\<open>userMembership && (role === 'administrator' || role === 'manager')\<close>\<close>

definition can_manage :: "GroupMembership option \<Rightarrow> bool" where
  "can_manage userMembership =
     (case userMembership of
        None \<Rightarrow> False
      | Some m \<Rightarrow> m_role m = ''administrator'' \<or> m_role m = ''manager'')"

text \<open>The \<^verbatim>\<open>try\<close> block (lines 63 to 82): the state where it ended, and the value thrown
  if an awaited call rejected.\<close>

definition loadGroupData_try :: "server \<Rightarrow> string \<Rightarrow> page \<Rightarrow> page \<times> thrown option" where
  "loadGroupData_try srv gid s =
     (let s0 = s\<lparr>page_loading := True\<rparr>;
          s1 = emit (Request (GetGroup gid)) s0
      in case getGroup srv (log s0) gid of
           Rejected err \<Rightarrow> (s1, Some err)
         | Fulfilled g \<Rightarrow>
            (let s2 = s1\<lparr>group := Some g\<rparr>;
                 s3 = emit (Request (GetGroupMembers gid)) s2
             in case getGroupMembers srv (log s2) gid of
                  Rejected err \<Rightarrow> (s3, Some err)
                | Fulfilled ms \<Rightarrow>
                   (let s4 = s3\<lparr>members := ms\<rparr>
                    in if can_manage (g_membership g) then
                         (let s5 = emit (Request (GetGroupInvitations gid)) s4
                          in case getGroupInvitations srv (log s4) gid of
                               Rejected err \<Rightarrow> (s5, Some err)
                             | Fulfilled is \<Rightarrow>
                                (let s6 = s5\<lparr>invitations := is\<rparr>;
                                     s7 = emit (Request (GetGroupJoinRequests gid)) s6
                                 in case getGroupJoinRequests srv (log s6) gid of
                                      Rejected err \<Rightarrow> (s7, Some err)
                                    | Fulfilled js \<Rightarrow> (s7\<lparr>joinRequests := js\<rparr>, None)))
                       else (s4, None))))"

text \<open>The \<^verbatim>\<open>catch\<close> block (lines 84 to 94) changes no state: it logs, shows a toast and,
  for 403 and 404, leaves the page.\<close>

definition loadGroupData_catch_effects :: "thrown \<Rightarrow> effect list" where
  "loadGroupData_catch_effects err =
     ConsoleError ''Failed to load group data:'' err #
     (if response_status err = Some 403 then
        [ToastError (JStr ''You do not have permission to view this group''), Navigate ''/detail'']
      else if response_status err = Some 404 then
        [ToastError (JStr ''Group not found''), Navigate ''/detail'']
      else
        [ToastError (js_or (thrown_userMessage err) (JStr ''Failed to load group data''))])"

definition loadGroupData_catch :: "thrown \<Rightarrow> page \<Rightarrow> page" where
  "loadGroupData_catch err s = s\<lparr>log := log s @ loadGroupData_catch_effects err\<rparr>"

text \<open>\<^verbatim>\<open>loadGroupData\<close> (lines 59 to 98). The route parameter is absent or a string; the
  empty string is falsy too.\<close>

definition loadGroupData :: "server \<Rightarrow> string option \<Rightarrow> page \<Rightarrow> page" where
  "loadGroupData srv groupId s =
     (case groupId of
        None \<Rightarrow> s
      | Some gid \<Rightarrow>
          if gid = [] then s
          else
            (let (s1, thrown) = loadGroupData_try srv gid s;
                 s2 = (case thrown of None \<Rightarrow> s1 | Some err \<Rightarrow> loadGroupData_catch err s1)
             in s2\<lparr>page_loading := False\<rparr>))"

subsection \<open>Destructive actions\<close>

text \<open>
  Each handler returns at once when there is no group or when \<^verbatim>\<open>window.confirm\<close> answers
  false; \<^verbatim>\<open>||\<close> does not ask when there is no group. The user's answer to a dialog is a
  function of its message. A reload that a handler starts is run to its end here.
\<close>

definition handleDeleteGroup :: "server \<Rightarrow> (string \<Rightarrow> bool) \<Rightarrow> page \<Rightarrow> page" where
  "handleDeleteGroup srv confirm s =
     (case group s of
        None \<Rightarrow> s
      | Some g \<Rightarrow>
         (let msg = ''Are you sure you want to delete this group? This action cannot be undone.'';
              s1 = emit (Confirm msg) s
          in if \<not> confirm msg then s1
             else
               (let s2 = emit (Request (DeleteGroup (g_id g))) s1
                in case deleteGroup srv (log s1) (g_id g) of
                     Fulfilled u \<Rightarrow>
                       emit (Navigate ''/detail'') (emit (ToastSuccess ''Group deleted successfully'') s2)
                   | Rejected err \<Rightarrow>
                       emit (ToastError (js_or (thrown_userMessage err) (JStr ''Failed to delete group'')))
                         (emit (ConsoleError ''Failed to delete group:'' err) s2))))"

definition handleRemoveMember ::
  "server \<Rightarrow> (string \<Rightarrow> bool) \<Rightarrow> string option \<Rightarrow> string \<Rightarrow> page \<Rightarrow> page" where
  "handleRemoveMember srv confirm groupId userId s =
     (case group s of
        None \<Rightarrow> s
      | Some g \<Rightarrow>
         (let msg = ''Are you sure you want to remove this member?'';
              s1 = emit (Confirm msg) s
          in if \<not> confirm msg then s1
             else
               (let s2 = emit (Request (RemoveGroupMember (g_id g) userId)) s1
                in case removeGroupMember srv (log s1) (g_id g) userId of
                     Fulfilled u \<Rightarrow>
                       loadGroupData srv groupId (emit (ToastSuccess ''Member removed successfully'') s2)
                   | Rejected err \<Rightarrow>
                       emit (ToastError (js_or (thrown_userMessage err) (JStr ''Failed to remove member'')))
                         (emit (ConsoleError ''Failed to remove member:'' err) s2))))"

definition handleRevokeInvitation ::
  "server \<Rightarrow> (string \<Rightarrow> bool) \<Rightarrow> string option \<Rightarrow> string \<Rightarrow> page \<Rightarrow> page" where
  "handleRevokeInvitation srv confirm groupId invitationId s =
     (case group s of
        None \<Rightarrow> s
      | Some g \<Rightarrow>
         (let msg = ''Are you sure you want to revoke this invitation?'';
              s1 = emit (Confirm msg) s
          in if \<not> confirm msg then s1
             else
               (let s2 = emit (Request (RevokeInvitation (g_id g) invitationId)) s1
                in case revokeInvitation srv (log s1) (g_id g) invitationId of
                     Fulfilled u \<Rightarrow>
                       loadGroupData srv groupId
                         (emit (ToastSuccess ''Invitation revoked successfully'') s2)
                   | Rejected err \<Rightarrow>
                       emit (ToastError (js_or (thrown_userMessage err) (JStr ''Failed to revoke invitation'')))
                         (emit (ConsoleError ''Failed to revoke invitation:'' err) s2))))"

definition handleDenyJoinRequest ::
  "server \<Rightarrow> (string \<Rightarrow> bool) \<Rightarrow> string option \<Rightarrow> string \<Rightarrow> string \<Rightarrow> page \<Rightarrow> page" where
  "handleDenyJoinRequest srv confirm groupId requestId comment s =
     (case group s of
        None \<Rightarrow> s
      | Some g \<Rightarrow>
         (let msg = ''Are you sure you want to deny this join request?'';
              s1 = emit (Confirm msg) s
          in if \<not> confirm msg then s1
             else
               (let s2 = emit (Request (DenyJoinRequest (g_id g) requestId comment)) s1
                in case denyJoinRequest srv (log s1) (g_id g) requestId comment of
                     Fulfilled u \<Rightarrow>
                       loadGroupData srv groupId
                         (emit (ToastSuccess ''Join request denied successfully'') s2)
                   | Rejected err \<Rightarrow>
                       emit (ToastError (js_or (thrown_userMessage err) (JStr ''Failed to deny join request'')))
                         (emit (ConsoleError ''Failed to deny join request:'' err) s2))))"


section \<open>Rendering invitations\<close>

text \<open>
  The client clock: the time value of \<^verbatim>\<open>new Date()\<close> in milliseconds, and the time value
  the \<^verbatim>\<open>Date\<close> constructor gives a timestamp string (\<^verbatim>\<open>None\<close> for an invalid date, whose
  comparisons are all false).
\<close>

record clock =
  Date_now :: int
  Date_parse :: "string \<Rightarrow> int option"

text \<open>\<^verbatim>\<open>new Date(expiresAt) < new Date()\<close>\<close>

definition isInvitationExpired :: "clock \<Rightarrow> string \<Rightarrow> bool" where
  "isInvitationExpired clk expiresAt =
     (case Date_parse clk expiresAt of None \<Rightarrow> False | Some t \<Rightarrow> t < Date_now clk)"

text \<open>The words in front of a date that \<^verbatim>\<open>format\<close> prints, and the timestamp printed.\<close>

datatype expiry_label = Expires string | Expired_on string | Expired

text \<open>What a row shows of the invitation's state: the expiry line, the status badge (class
  and text) and whether the action button (Revoke, Accept) is there.\<close>

record invitation_row =
  row_expiry :: expiry_label
  row_status_class :: string
  row_status_text :: string
  row_button :: bool

definition getStatusBadgeClass :: "string \<Rightarrow> string" where
  "getStatusBadgeClass st =
     (if st = ''pending'' then ''bg-yellow-100 text-yellow-800''
      else if st = ''accepted'' then ''bg-green-100 text-green-800''
      else if st = ''expired'' then ''bg-red-100 text-red-800''
      else if st = ''revoked'' then ''bg-gray-100 text-gray-800''
      else ''bg-gray-100 text-gray-800'')"

text \<open>A row of the invitations tab of the group detail page (lines 517 to 543).\<close>

definition GroupDetail_invitation_row :: "clock \<Rightarrow> GroupInvitation \<Rightarrow> invitation_row" where
  "GroupDetail_invitation_row clk invitation =
     \<lparr> row_expiry = Expires (inv_expires_at invitation),
       row_status_class = getStatusBadgeClass (inv_status invitation),
       row_status_text = inv_status invitation,
       row_button = (inv_status invitation = ''pending'') \<rparr>"

text \<open>A card of the pending invitations on the dashboard (lines 252 to 275 of the dashboard):
  no status badge, and the Accept button on every card.\<close>

definition Dashboard_invitation_row :: "clock \<Rightarrow> GroupInvitation \<Rightarrow> invitation_row" where
  "Dashboard_invitation_row clk invitation =
     \<lparr> row_expiry = Expires (inv_expires_at invitation),
       row_status_class = [],
       row_status_text = [],
       row_button = True \<rparr>"

definition getStatusText :: "string \<Rightarrow> string" where
  "getStatusText st =
     (if st = ''pending'' then ''Pending''
      else if st = ''accepted'' then ''Accepted''
      else if st = ''expired'' then ''Expired''
      else if st = ''revoked'' then ''Revoked''
      else st)"

text \<open>An item of the invitations inbox (the \<^verbatim>\<open>Invitations\<close> page).\<close>

definition Invitations_row :: "clock \<Rightarrow> GroupInvitation \<Rightarrow> invitation_row" where
  "Invitations_row clk invitation =
     (let isExpired = isInvitationExpired clk (inv_expires_at invitation);
          canAccept = (inv_status invitation = ''pending'' \<and> \<not> isExpired)
      in \<lparr> row_expiry = (if isExpired then Expired else Expires (inv_expires_at invitation)),
            row_status_class =
              (if inv_status invitation = ''pending'' then
                 (if isExpired then ''bg-red-100 text-red-800'' else ''bg-yellow-100 text-yellow-800'')
               else if inv_status invitation = ''accepted'' then ''bg-green-100 text-green-800''
               else ''bg-gray-100 text-gray-800''),
            row_status_text =
              (if isExpired \<and> inv_status invitation = ''pending'' then ''Expired''
               else getStatusText (inv_status invitation)),
            row_button = canAccept \<rparr>)"

text \<open>The page behind an invitation link (\<^verbatim>\<open>AcceptInvitation\<close>).\<close>

record InvitationInfo =
  ii_group_name :: string
  ii_group_description :: string
  ii_role :: string
  ii_expires_at :: string
  ii_is_valid :: bool

datatype accept_panel = Expired_panel | No_longer_valid_panel | Sign_in_panel | Accept_panel

datatype accept_view =
    Spinner
  | Invalid_invitation string
  | Invitation_card expiry_label accept_panel

definition AcceptInvitation_render ::
  "clock \<Rightarrow> bool \<Rightarrow> string option \<Rightarrow> InvitationInfo option \<Rightarrow> User option \<Rightarrow> accept_view" where
  "AcceptInvitation_render clk is_loading err invitationInfo usr =
     (let isExpired =
            (case invitationInfo of
               None \<Rightarrow> False
             | Some info \<Rightarrow> isInvitationExpired clk (ii_expires_at info))
      in if is_loading then Spinner
         else case invitationInfo of
           None \<Rightarrow>
             Invalid_invitation (or_default err ''This invitation link is not valid or has expired.'')
         | Some info \<Rightarrow>
             if truthy_str err then
               Invalid_invitation (or_default err ''This invitation link is not valid or has expired.'')
             else
               Invitation_card
                 (if isExpired then Expired_on (ii_expires_at info) else Expires (ii_expires_at info))
                 (if isExpired then Expired_panel
                  else if \<not> ii_is_valid info then No_longer_valid_panel
                  else if usr = None then Sign_in_panel
                  else Accept_panel))"


section \<open>Concrete inputs\<close>

text \<open>A production build served from one origin, and a window on a group's page.\<close>

definition example_env :: env where
  "example_env =
     \<lparr> MODE = ''production'', VITE_BASE_URL = None, VITE_API_BASE_PATH = None,
       VITE_BACKEND_URL = None, VITE_AUTH_API_BASE_PATH = None, VITE_AUTH_URL = None,
       VITE_UI_BASE_PATH = None, location_origin = ''https://example.org'' \<rparr>"

definition example_browser :: browser where
  "example_browser =
     \<lparr> location_href = ''https://example.org/deriva/apps/groups/detail/g1'', console_error = [] \<rparr>"

text \<open>The error of a request the server answered with a status and a body, of a request
  that got no answer, and of a request that was never sent.\<close>

definition http_error :: "nat \<Rightarrow> jsval \<Rightarrow> axios_error" where
  "http_error st body =
     \<lparr> response = Some \<lparr> status = st, data = body \<rparr>, request = True, userMessage = JUndefined \<rparr>"

definition network_error :: axios_error where
  "network_error = \<lparr> response = None, request = True, userMessage = JUndefined \<rparr>"

definition setup_error :: axios_error where
  "setup_error = \<lparr> response = None, request = False, userMessage = JUndefined \<rparr>"

text \<open>Session fields of a user whose verification flag is true, false, or not sent.\<close>

definition example_fields :: "jsval \<Rightarrow> session_fields" where
  "example_fields flag =
     \<lparr> sf_id = JStr ''u1'', sf_email = JStr ''ada@example.org'', sf_username = JStr ''ada'',
       sf_full_name = JStr ''Ada L'', sf_email_verified = flag,
       sf_group_memberships = JUndefined, sf_pending_invitations_count = JNum 2 \<rparr>"

definition example_user :: User where
  "example_user = normalize_session (flat_payload (example_fields (JBool True)))"

text \<open>A group seen by a plain member and by a manager, one pending invitation that ran out
  in 2020, and a clock in 2026.\<close>

definition example_membership :: "string \<Rightarrow> GroupMembership" where
  "example_membership r =
     \<lparr> m_group_id = ''g1'', m_user_id = ''u1'', m_user_email = ''ada@example.org'', m_role = r,
       m_joined_at = ''2019-05-01T00:00:00Z'', m_updated_at = ''2019-05-01T00:00:00Z'',
       m_added_by = ''u0'', m_metadata = JObj [] \<rparr>"

definition example_group :: "GroupMembership option \<Rightarrow> Group" where
  "example_group m =
     \<lparr> g_id = ''g1'', g_name = ''Lab'', g_description = ''The lab'', g_visibility = ''private'',
       g_created_at = ''2019-05-01T00:00:00Z'', g_updated_at = ''2019-05-01T00:00:00Z'',
       g_created_by = ''u0'', g_metadata = JObj [], g_membership = m, g_member_count = Some 1,
       g_pending_invitations = Some 1, g_role_distribution = None \<rparr>"

definition example_invitation :: GroupInvitation where
  "example_invitation =
     \<lparr> inv_id = ''i1'', inv_group_id = ''g1'', inv_email = ''bob@example.org'',
       inv_role = ''member'', inv_token = ''t1'', inv_created_at = ''2019-12-25T00:00:00Z'',
       inv_expires_at = ''2020-01-01T00:00:00Z'', inv_status = ''pending'', inv_invited_by = ''u1'',
       inv_accepted_at = None, inv_accepted_by = None, inv_metadata = JObj [],
       inv_group = None \<rparr>"

definition example_clock :: clock where
  "example_clock =
     \<lparr> Date_now = 1793664000000,
       Date_parse = (\<lambda>s. if s = ''2020-01-01T00:00:00Z'' then Some 1577836800000
                         else if s = ''2019-12-25T00:00:00Z'' then Some 1577232000000
                         else None) \<rparr>"

text \<open>An API layer on which every read succeeds and every change is accepted, one on which
  the members cannot be read, and one on which the invitations cannot be read.\<close>

definition example_server :: "GroupMembership option \<Rightarrow> server" where
  "example_server m =
     \<lparr> getGroup = (\<lambda>h gid. Fulfilled (example_group m)),
       getGroupMembers = (\<lambda>h gid. Fulfilled [example_membership ''member'']),
       getGroupInvitations = (\<lambda>h gid. Fulfilled [example_invitation]),
       getGroupJoinRequests = (\<lambda>h gid. Fulfilled []),
       deleteGroup = (\<lambda>h gid. Fulfilled ()),
       removeGroupMember = (\<lambda>h gid uid. Fulfilled ()),
       revokeInvitation = (\<lambda>h gid iid. Fulfilled ()),
       denyJoinRequest = (\<lambda>h gid rid c. Fulfilled ()) \<rparr>"

definition server_error :: thrown where
  "server_error = AxiosError ((http_error 500 (JObj [(''error'', JStr ''boom'')]))
                     \<lparr>userMessage := JStr ''boom''\<rparr>)"

definition failing_invitations_server :: server where
  "failing_invitations_server =
     (example_server (Some (example_membership ''manager'')))
       \<lparr> getGroupInvitations := (\<lambda>h gid. Rejected server_error) \<rparr>"

text \<open>The page after a manager's load, and users who cancel or accept every dialog.\<close>

definition loaded_page :: page where
  "loaded_page =
     loadGroupData (example_server (Some (example_membership ''manager''))) (Some ''g1'') page_initial"

definition cancel :: "string \<Rightarrow> bool" where
  "cancel msg = False"

definition accept :: "string \<Rightarrow> bool" where
  "accept msg = True"



section \<open>Properties of the API access layer\<close>

lemma interceptor_authBaseUrl_same: "interceptor_authBaseUrl ev inst = AUTH_API_BASE_URL ev"
  by (cases inst) simp_all

lemma response_interceptor_401:
  "error_status e = Some 401 \<Longrightarrow>
   response_interceptor ev inst (Rejected e) w =
     (w\<lparr>location_href :=
          AUTH_API_BASE_URL ev @ ''/login?referrer='' @ encodeURIComponent (location_href w)\<rparr>,
      Rejected (AxiosError e))"
  by (simp add: response_interceptor_def response_onRejected_def interceptor_authBaseUrl_same)

lemma response_interceptor_other:
  "error_status e \<noteq> Some 401 \<Longrightarrow>
   response_interceptor ev inst (Rejected e) w =
     (w, Rejected (AxiosError (e\<lparr>userMessage := compute_userMessage e\<rparr>)))"
  by (simp add: response_interceptor_def response_onRejected_def)

lemma response_interceptor_Fulfilled:
  "response_interceptor ev inst (Fulfilled resp) w = (w, Fulfilled resp)"
  by (simp add: response_interceptor_def)

lemma response_interceptor_Rejected_cases:
  obtains w1 err where "response_interceptor ev inst (Rejected e) w = (w1, Rejected err)"
    and "response_status err = error_status e"
    and "console_error w1 = console_error w"
proof (cases "error_status e = Some 401")
  case True
  show ?thesis
    by (rule that [OF response_interceptor_401 [OF True]]) (simp_all add: True)
next
  case False
  show ?thesis
    by (rule that [OF response_interceptor_other [OF False]]) (simp_all add: error_status_def)
qed

lemma example_auth_base: "AUTH_API_BASE_URL example_env = ''https://example.org/authn''"
  by (simp add: AUTH_API_BASE_URL_def getAuthApiBaseUrl_def baseUrl_def or_default_def
      truthy_str_def example_env_def)

lemma example_href_encoded:
  "encodeURIComponent (location_href example_browser) =
     ''https%3A%2F%2Fexample.org%2Fderiva%2Fapps%2Fgroups%2Fdetail%2Fg1''"
  by code_simp

text \<open>
  C2. A rejection whose response has status 401, on either client instance, sends the window
  to the login endpoint of the authentication service with the encoded address of the
  current page as the \<^verbatim>\<open>referrer\<close> parameter, and the request's promise is rejected with
  the error: it is never fulfilled for the caller.
\<close>

theorem unauthorized_redirects_to_login:
  assumes "error_status e = Some 401"
  shows "response_interceptor ev inst (Rejected e) w =
           (w\<lparr>location_href :=
                AUTH_API_BASE_URL ev @ ''/login?referrer='' @ encodeURIComponent (location_href w)\<rparr>,
            Rejected (AxiosError e))
         \<and> (\<forall>v. snd (response_interceptor ev inst (Rejected e) w) \<noteq> Fulfilled v)"
  using assms by (simp add: response_interceptor_401)

theorem unauthorized_redirects_to_login_witness:
  "error_status (http_error 401 JNull) = Some 401
   \<and> response_interceptor example_env Api (Rejected (http_error 401 JNull)) example_browser =
       (example_browser\<lparr>location_href :=
          ''https://example.org/authn/login?referrer=https%3A%2F%2Fexample.org%2Fderiva%2Fapps%2Fgroups%2Fdetail%2Fg1''\<rparr>,
        Rejected (AxiosError (http_error 401 JNull)) :: (http_response, thrown) settled)"
proof -
  have h: "error_status (http_error 401 JNull) = Some 401"
    by (simp add: http_error_def error_status_def)
  have "response_interceptor example_env Api (Rejected (http_error 401 JNull)) example_browser =
          (example_browser\<lparr>location_href :=
             AUTH_API_BASE_URL example_env @ ''/login?referrer=''
               @ encodeURIComponent (location_href example_browser)\<rparr>,
           Rejected (AxiosError (http_error 401 JNull)) :: (http_response, thrown) settled)"
    by (rule conjunct1 [OF unauthorized_redirects_to_login [OF h]])
  with h show ?thesis
    by (simp add: example_auth_base example_href_encoded)
qed

lemma js_or_truthy: "truthy b \<Longrightarrow> truthy (js_or a b)"
  by (simp add: js_or_def)

lemma compute_userMessage_truthy: "truthy (compute_userMessage e)"
  by (simp add: compute_userMessage_def no_body_message_def js_or_truthy split: option.splits)

text \<open>
  C4, as amended. For every error other than 401 the interceptor rejects with the same error,
  to which it has attached exactly one message, and touches nothing else; the message is
  never missing or empty (it is a truthy value). When the response has a truthy body, the
  message is the first truthy one of the body's \<^verbatim>\<open>message\<close>, \<^verbatim>\<open>error\<close> and \<^verbatim>\<open>detail\<close>, else
  \<^verbatim>\<open>Server error (status)\<close>. When there is no response, it is the connectivity message if
  the request was sent, and \<^verbatim>\<open>An unexpected error occurred\<close> if it was not.
\<close>

theorem interceptor_attaches_one_message:
  assumes "error_status e \<noteq> Some 401"
  shows "\<exists>m. response_interceptor ev inst (Rejected e) w =
               (w, Rejected (AxiosError (e\<lparr>userMessage := m\<rparr>)))
           \<and> truthy m
           \<and> (\<forall>r. response e = Some r \<and> truthy (data r) \<longrightarrow>
                 m = (if truthy (get_prop (data r) ''message'') then get_prop (data r) ''message''
                      else if truthy (get_prop (data r) ''error'') then get_prop (data r) ''error''
                      else if truthy (get_prop (data r) ''detail'') then get_prop (data r) ''detail''
                      else JStr (''Server error ('' @ string_of_nat (status r) @ '')'')))
           \<and> (response e = None \<and> request e \<longrightarrow>
                 m = JStr ''Unable to connect to server. Please check your internet connection.'')
           \<and> (response e = None \<and> \<not> request e \<longrightarrow> m = JStr ''An unexpected error occurred'')"
proof (intro exI conjI)
  show "response_interceptor ev inst (Rejected e) w =
          (w, Rejected (AxiosError (e\<lparr>userMessage := compute_userMessage e\<rparr>)))"
    using assms by (rule response_interceptor_other)
  show "truthy (compute_userMessage e)"
    by (rule compute_userMessage_truthy)
qed (auto simp: compute_userMessage_def no_body_message_def js_or_def)

theorem interceptor_attaches_one_message_witness:
  "error_status (http_error 409 (JObj [(''error'', JStr ''Already a member'')])) \<noteq> Some 401
   \<and> response_interceptor example_env Api
       (Rejected (http_error 409 (JObj [(''error'', JStr ''Already a member'')]))) example_browser =
       (example_browser,
        Rejected (AxiosError ((http_error 409 (JObj [(''error'', JStr ''Already a member'')]))
                                \<lparr>userMessage := JStr ''Already a member''\<rparr>))
          :: (http_response, thrown) settled)"
proof -
  let ?e = "http_error 409 (JObj [(''error'', JStr ''Already a member'')])"
  have h: "error_status ?e \<noteq> Some 401"
    by (simp add: http_error_def error_status_def)
  obtain m where m:
    "response_interceptor example_env Api (Rejected ?e) example_browser =
       (example_browser, Rejected (AxiosError (?e\<lparr>userMessage := m\<rparr>)) :: (http_response, thrown) settled)"
    "\<forall>r. response ?e = Some r \<and> truthy (data r) \<longrightarrow>
       m = (if truthy (get_prop (data r) ''message'') then get_prop (data r) ''message''
            else if truthy (get_prop (data r) ''error'') then get_prop (data r) ''error''
            else if truthy (get_prop (data r) ''detail'') then get_prop (data r) ''detail''
            else JStr (''Server error ('' @ string_of_nat (status r) @ '')''))"
    using interceptor_attaches_one_message [OF h, of example_env Api example_browser] by blast
  have "m = JStr ''Already a member''"
    using m(2) by (simp add: http_error_def)
  with h m(1) show ?thesis by simp
qed

text \<open>The claim as it was stated fails on an error with neither a response nor a request
  (the message is not the connectivity one) and on a response with an empty body (the
  message is not the server error one).\<close>

theorem interceptor_message_counterexample:
  "compute_userMessage setup_error
     \<noteq> JStr ''Unable to connect to server. Please check your internet connection.''
   \<and> compute_userMessage (http_error 500 (JStr '''')) \<noteq> JStr ''Server error (500)''"
  by (simp add: compute_userMessage_def no_body_message_def setup_error_def http_error_def)



section \<open>Properties of the session manager\<close>

lemma get_prop_field:
  "get_prop (JObj (field k v @ rest)) k' =
     (if k' = k \<and> v \<noteq> JUndefined then v else get_prop (JObj rest) k')"
  by (simp add: field_def)

lemma get_prop_Cons:
  "get_prop (JObj ((k, v) # rest)) k' = (if k' = k then v else get_prop (JObj rest) k')"
  by simp

lemma get_prop_Nil: "get_prop (JObj []) k = JUndefined"
  by simp

lemma get_prop_field_last:
  "get_prop (JObj (field k v)) k' = (if k' = k \<and> v \<noteq> JUndefined then v else JUndefined)"
  by (simp add: field_def)

lemmas get_prop_payload = get_prop_field get_prop_field_last get_prop_Cons get_prop_Nil

lemma normalize_flat:
  "normalize_session (flat_payload f) =
     \<lparr> User_id = sf_id f, email = sf_email f, preferred_username = sf_username f,
       full_name = sf_full_name f, email_verified = sf_email_verified f,
       group_memberships = js_or (sf_group_memberships f) (JArr []),
       pending_invitations_count = js_or (sf_pending_invitations_count f) (JNum 0) \<rparr>"
  by (simp add: normalize_session_def flat_payload_def get_prop_payload del: get_prop.simps)

lemma normalize_legacy:
  "normalize_session (legacy_payload f) =
     \<lparr> User_id = sf_id f, email = sf_email f, preferred_username = sf_username f,
       full_name = sf_full_name f, email_verified = js_or (sf_email_verified f) (JStr ''unknown''),
       group_memberships = js_or (sf_group_memberships f) (JArr []),
       pending_invitations_count = js_or (sf_pending_invitations_count f) (JNum 0) \<rparr>"
  by (simp add: normalize_session_def legacy_payload_def get_prop_payload Let_def
      del: get_prop.simps)

lemma payload_not_nullish: "\<not> nullish (flat_payload f)" "\<not> nullish (legacy_payload f)"
  by (simp_all add: flat_payload_def legacy_payload_def)

text \<open>
  C1, as amended. For session payloads of the two shapes that carry the same fields, with a
  verification flag that is present and truthy (\<^verbatim>\<open>true\<close>, or a non-empty string), the
  normalization gives the same User record, and so does a session fetch. In the legacy shape
  a missing flag becomes \<^verbatim>\<open>"unknown"\<close>; in the flat shape the flag is copied as it came.
\<close>

theorem normalization_of_both_shapes:
  "(truthy (sf_email_verified f) \<longrightarrow>
      normalize_session (legacy_payload f) = normalize_session (flat_payload f)
      \<and> fetchUser ev (Fulfilled \<lparr> status = st, data = legacy_payload f \<rparr>) sw =
        fetchUser ev (Fulfilled \<lparr> status = st, data = flat_payload f \<rparr>) sw)
   \<and> (sf_email_verified f = JUndefined \<longrightarrow>
        email_verified (normalize_session (legacy_payload f)) = JStr ''unknown'')
   \<and> email_verified (normalize_session (flat_payload f)) = sf_email_verified f"
  by (simp add: normalize_flat normalize_legacy js_or_def fetchUser_def getCurrentUser_def
      response_interceptor_Fulfilled fetchUser_try_def payload_not_nullish)

theorem normalization_of_both_shapes_witness:
  "truthy (sf_email_verified (example_fields (JBool True)))
   \<and> normalize_session (legacy_payload (example_fields (JBool True))) =
       normalize_session (flat_payload (example_fields (JBool True)))
   \<and> sf_email_verified (example_fields JUndefined) = JUndefined
   \<and> email_verified (normalize_session (legacy_payload (example_fields JUndefined))) =
       JStr ''unknown''"
  using normalization_of_both_shapes [of "example_fields (JBool True)"]
    normalization_of_both_shapes [of "example_fields JUndefined"]
  by (simp add: example_fields_def)

text \<open>The claim as it was stated fails on a payload without the flag: the flat shape gives
  a User whose flag is \<^verbatim>\<open>undefined\<close>, not \<^verbatim>\<open>"unknown"\<close>, and not the User of the legacy
  shape.\<close>

theorem normalization_counterexample:
  "email_verified (normalize_session (flat_payload (example_fields JUndefined))) \<noteq> JStr ''unknown''
   \<and> normalize_session (legacy_payload (example_fields JUndefined)) \<noteq>
     normalize_session (flat_payload (example_fields JUndefined))"
  by (simp add: normalize_flat normalize_legacy js_or_def example_fields_def)

lemma normalization_false_flag:
  "email_verified (normalize_session (legacy_payload (example_fields (JBool False)))) = JStr ''unknown''"
  "email_verified (normalize_session (flat_payload (example_fields (JBool False)))) = JBool False"
  by (simp_all add: normalize_flat normalize_legacy js_or_def example_fields_def)

text \<open>
  C3. When the session request is rejected with a response of status 404, the session
  manager ends with no user and no error (and with loading off), whatever the state before,
  and does nothing to the browser.
\<close>

theorem session_404_is_empty_session:
  assumes "error_status e = Some 404"
  shows "fetchUser ev (Rejected e) (s, w) = (s\<lparr>user := None, loading := False, error := None\<rparr>, w)"
  using assms
  by (simp add: fetchUser_def getCurrentUser_def response_interceptor_other fetchUser_try_def
      error_status_def)

theorem session_404_is_empty_session_witness:
  "error_status (http_error 404 JNull) = Some 404
   \<and> fetchUser example_env (Rejected (http_error 404 JNull))
       (\<lparr>user = Some example_user, loading = False, error = Some ''old''\<rparr>, example_browser) =
       (\<lparr>user = None, loading = False, error = None\<rparr>, example_browser)"
proof -
  have h: "error_status (http_error 404 JNull) = Some 404"
    by (simp add: http_error_def error_status_def)
  show ?thesis
    using h session_404_is_empty_session [OF h, of example_env
        "\<lparr>user = Some example_user, loading = False, error = Some ''old''\<rparr>" example_browser]
    by simp
qed



text \<open>
  C9. However the logout request settles, the promise of \<^verbatim>\<open>authAPI.logout\<close>, and with it
  the one of the AuthProvider's \<^verbatim>\<open>logout\<close>, is fulfilled: a rejection is caught and written
  to the console, and the session manager's state (its error too) is not touched.
\<close>

theorem logout_always_resolves:
  "snd (authAPI_logout ev transport redirectUrl w) = Fulfilled ()
   \<and> AuthProvider_logout ev transport redirectUrl (s, w) =
       ((s, fst (authAPI_logout ev transport redirectUrl w)), Fulfilled ())
   \<and> (\<forall>e. transport (or_default redirectUrl
               (location_origin ev @ or_default (VITE_UI_BASE_PATH ev) ''/deriva/apps'' @ ''/'')) = Rejected e
         \<longrightarrow> (\<exists>err. response_status err = error_status e
                  \<and> console_error (fst (authAPI_logout ev transport redirectUrl w)) =
                      console_error w @ [(''Logout error:'', err)]))"
proof -
  let ?redirect = "or_default redirectUrl
      (location_origin ev @ or_default (VITE_UI_BASE_PATH ev) ''/deriva/apps'' @ ''/'')"
  have resolved: "snd (authAPI_logout ev transport redirectUrl w) = Fulfilled ()"
    by (simp add: authAPI_logout_def Let_def split_beta split: settled.splits)
  have provider: "AuthProvider_logout ev transport redirectUrl (s, w) =
       ((s, fst (authAPI_logout ev transport redirectUrl w)), Fulfilled ())"
    using resolved by (simp add: AuthProvider_logout_def split_beta)
  have logged: "\<exists>err. response_status err = error_status e
                  \<and> console_error (fst (authAPI_logout ev transport redirectUrl w)) =
                      console_error w @ [(''Logout error:'', err)]"
    if "transport ?redirect = Rejected e" for e
  proof -
    obtain w1 err where
      i: "response_interceptor ev Auth (Rejected e :: (http_response, axios_error) settled) w
            = (w1, Rejected err)"
      and st: "response_status err = error_status e"
      and co: "console_error w1 = console_error w"
      by (rule response_interceptor_Rejected_cases)
    have "console_error (fst (authAPI_logout ev transport redirectUrl w)) =
            console_error w @ [(''Logout error:'', err)]"
      using that i co by (simp add: authAPI_logout_def Let_def)
    with st show ?thesis by blast
  qed
  from resolved provider logged show ?thesis by blast
qed

theorem logout_always_resolves_witness:
  "(\<lambda>r. Rejected network_error :: (http_response, axios_error) settled)
      (or_default None (location_origin example_env
          @ or_default (VITE_UI_BASE_PATH example_env) ''/deriva/apps'' @ ''/'')) = Rejected network_error
   \<and> snd (authAPI_logout example_env (\<lambda>r. Rejected network_error) None example_browser) = Fulfilled ()
   \<and> length (console_error (fst (authAPI_logout example_env (\<lambda>r. Rejected network_error) None
         example_browser))) = 1"
  using logout_always_resolves [of example_env "\<lambda>r. Rejected network_error" None example_browser
      auth_initial]
  by (auto simp: example_browser_def)


section \<open>Properties of the group detail page\<close>

lemma new_effects_append [simp]: "log s' = log s @ es \<Longrightarrow> new_effects s s' = es"
  by (simp add: new_effects_def)

lemma requests_of_catch: "requests_of (loadGroupData_catch_effects err) = []"
  by (simp add: loadGroupData_catch_effects_def)

lemma catch_effects_no_request: "\<not> list_ex is_request (loadGroupData_catch_effects err)"
  by (simp add: loadGroupData_catch_effects_def)

text \<open>What one run of \<^verbatim>\<open>loadGroupData\<close> adds to the log, case by case.\<close>

lemma load_group_rejected:
  assumes "gid \<noteq> []" and "getGroup srv (log s) gid = Rejected err"
  shows "loadGroupData srv (Some gid) s =
           s\<lparr>page_loading := False,
             log := log s @ Request (GetGroup gid) # loadGroupData_catch_effects err\<rparr>"
  using assms
  by (simp add: loadGroupData_def loadGroupData_try_def loadGroupData_catch_def emit_def)

lemma load_members_rejected:
  assumes "gid \<noteq> []" and "getGroup srv (log s) gid = Fulfilled g"
    and "getGroupMembers srv (log s @ [Request (GetGroup gid)]) gid = Rejected err"
  shows "loadGroupData srv (Some gid) s =
           s\<lparr>group := Some g, page_loading := False,
             log := log s @ Request (GetGroup gid) # Request (GetGroupMembers gid)
                      # loadGroupData_catch_effects err\<rparr>"
  using assms
  by (simp add: loadGroupData_def loadGroupData_try_def loadGroupData_catch_def emit_def)

lemma load_not_manager:
  assumes "gid \<noteq> []" and "getGroup srv (log s) gid = Fulfilled g"
    and "getGroupMembers srv (log s @ [Request (GetGroup gid)]) gid = Fulfilled ms"
    and "\<not> can_manage (g_membership g)"
  shows "loadGroupData srv (Some gid) s =
           s\<lparr>group := Some g, members := ms, page_loading := False,
             log := log s @ [Request (GetGroup gid), Request (GetGroupMembers gid)]\<rparr>"
  using assms
  by (simp add: loadGroupData_def loadGroupData_try_def emit_def)

lemma load_invitations_rejected:
  assumes "gid \<noteq> []" and "getGroup srv (log s) gid = Fulfilled g"
    and "getGroupMembers srv (log s @ [Request (GetGroup gid)]) gid = Fulfilled ms"
    and "can_manage (g_membership g)"
    and "getGroupInvitations srv
           (log s @ [Request (GetGroup gid), Request (GetGroupMembers gid)]) gid = Rejected err"
  shows "loadGroupData srv (Some gid) s =
           s\<lparr>group := Some g, members := ms, page_loading := False,
             log := log s @ Request (GetGroup gid) # Request (GetGroupMembers gid)
                      # Request (GetGroupInvitations gid) # loadGroupData_catch_effects err\<rparr>"
  using assms
  by (simp add: loadGroupData_def loadGroupData_try_def loadGroupData_catch_def emit_def)

lemma loadGroupData_try_log:
  "\<exists>es. log (fst (loadGroupData_try srv gid s)) = log s @ es"
  by (simp add: loadGroupData_try_def emit_def Let_def split: settled.splits)

lemma loadGroupData_log: "\<exists>es. log (loadGroupData srv groupId s) = log s @ es"
proof (cases "groupId = None \<or> groupId = Some []")
  case True
  then show ?thesis by (auto simp: loadGroupData_def)
next
  case False
  then obtain gid where gid: "groupId = Some gid" "gid \<noteq> []" by auto
  obtain es where es: "log (fst (loadGroupData_try srv gid s)) = log s @ es"
    using loadGroupData_try_log by blast
  show ?thesis
    using gid es
    by (cases "snd (loadGroupData_try srv gid s)")
      (simp_all add: loadGroupData_def loadGroupData_catch_def split_beta)
qed

text \<open>
  C7. On a page load, when the fetch of the group, of the members or of the invitations is
  rejected, the load goes to the \<^verbatim>\<open>catch\<close> block with that error and ends: the log holds the
  fetches up to the failed one, then only what the \<^verbatim>\<open>catch\<close> block does. No later fetch (the
  join requests after failed invitations, for one) is issued, and the lists of the fetches
  that did not run keep their values.
\<close>

theorem failed_fetch_ends_page_load:
  assumes "gid \<noteq> []"
  shows "(getGroup srv (log s) gid = Rejected err \<longrightarrow>
            new_effects s (loadGroupData srv (Some gid) s) =
              Request (GetGroup gid) # loadGroupData_catch_effects err)
       \<and> (getGroup srv (log s) gid = Fulfilled g
          \<and> getGroupMembers srv (log s @ [Request (GetGroup gid)]) gid = Rejected err \<longrightarrow>
            new_effects s (loadGroupData srv (Some gid) s) =
              Request (GetGroup gid) # Request (GetGroupMembers gid)
                # loadGroupData_catch_effects err)
       \<and> (getGroup srv (log s) gid = Fulfilled g
          \<and> getGroupMembers srv (log s @ [Request (GetGroup gid)]) gid = Fulfilled ms
          \<and> can_manage (g_membership g)
          \<and> getGroupInvitations srv
               (log s @ [Request (GetGroup gid), Request (GetGroupMembers gid)]) gid = Rejected err \<longrightarrow>
            new_effects s (loadGroupData srv (Some gid) s) =
              Request (GetGroup gid) # Request (GetGroupMembers gid)
                # Request (GetGroupInvitations gid) # loadGroupData_catch_effects err
            \<and> joinRequests (loadGroupData srv (Some gid) s) = joinRequests s)
       \<and> \<not> list_ex is_request (loadGroupData_catch_effects err)"
  using assms
  by (simp add: load_group_rejected load_members_rejected load_invitations_rejected
      catch_effects_no_request)

theorem failed_fetch_ends_page_load_witness:
  "''g1'' \<noteq> []
   \<and> getGroupInvitations failing_invitations_server
        (log page_initial @ [Request (GetGroup ''g1''), Request (GetGroupMembers ''g1'')]) ''g1''
       = Rejected server_error
   \<and> new_effects page_initial (loadGroupData failing_invitations_server (Some ''g1'') page_initial) =
       [Request (GetGroup ''g1''), Request (GetGroupMembers ''g1''),
        Request (GetGroupInvitations ''g1''),
        ConsoleError ''Failed to load group data:'' server_error, ToastError (JStr ''boom'')]"
proof -
  have g: "getGroup failing_invitations_server (log page_initial) ''g1''
             = Fulfilled (example_group (Some (example_membership ''manager'')))"
    and m: "getGroupMembers failing_invitations_server
              (log page_initial @ [Request (GetGroup ''g1'')]) ''g1''
             = Fulfilled [example_membership ''member'']"
    and c: "can_manage (g_membership (example_group (Some (example_membership ''manager''))))"
    and i: "getGroupInvitations failing_invitations_server
              (log page_initial @ [Request (GetGroup ''g1''), Request (GetGroupMembers ''g1'')]) ''g1''
             = Rejected server_error"
    by (simp_all add: failing_invitations_server_def example_server_def can_manage_def
        example_group_def example_membership_def)
  have n: "''g1'' \<noteq> []" by simp
  have "new_effects page_initial (loadGroupData failing_invitations_server (Some ''g1'') page_initial) =
          Request (GetGroup ''g1'') # Request (GetGroupMembers ''g1'')
            # Request (GetGroupInvitations ''g1'') # loadGroupData_catch_effects server_error"
    using failed_fetch_ends_page_load [OF n, of failing_invitations_server page_initial
        server_error "example_group (Some (example_membership ''manager''))"
        "[example_membership ''member'']"] g m c i
    by simp
  then show ?thesis
    using i
    by (simp add: loadGroupData_catch_effects_def server_error_def http_error_def
        error_status_def js_or_def)
qed

text \<open>
  C10. On a page load whose fetched group carries no membership, or a membership whose role
  is neither \<^verbatim>\<open>administrator\<close> nor \<^verbatim>\<open>manager\<close>, the only fetches are the group and (when
  the group came) its members: no fetch of invitations or of join requests. The two lists
  keep the value they had, which on the first load is the empty initial value.
\<close>

theorem non_manager_load_skips_invitations:
  assumes "gid \<noteq> []"
    and "getGroup srv (log s) gid = Fulfilled g"
    and "\<forall>m. g_membership g = Some m \<longrightarrow> m_role m \<noteq> ''administrator'' \<and> m_role m \<noteq> ''manager''"
  shows "requests_of (new_effects s (loadGroupData srv (Some gid) s)) =
           [GetGroup gid, GetGroupMembers gid]
       \<and> invitations (loadGroupData srv (Some gid) s) = invitations s
       \<and> joinRequests (loadGroupData srv (Some gid) s) = joinRequests s
       \<and> (s = page_initial \<longrightarrow>
            invitations (loadGroupData srv (Some gid) s) = []
            \<and> joinRequests (loadGroupData srv (Some gid) s) = [])"
proof -
  have nm: "\<not> can_manage (g_membership g)"
    using assms(3) by (auto simp: can_manage_def split: option.splits)
  have frame: "requests_of (new_effects s (loadGroupData srv (Some gid) s)) =
                 [GetGroup gid, GetGroupMembers gid]
               \<and> invitations (loadGroupData srv (Some gid) s) = invitations s
               \<and> joinRequests (loadGroupData srv (Some gid) s) = joinRequests s"
  proof (cases "getGroupMembers srv (log s @ [Request (GetGroup gid)]) gid")
    case (Fulfilled ms)
    show ?thesis
      by (simp add: load_not_manager [OF assms(1,2) Fulfilled nm])
  next
    case (Rejected err)
    show ?thesis
      by (simp add: load_members_rejected [OF assms(1,2) Rejected] requests_of_catch)
  qed
  have initial: "invitations page_initial = []" "joinRequests page_initial = []"
    by (simp_all add: page_initial_def)
  from frame initial show ?thesis by metis
qed

theorem non_manager_load_skips_invitations_witness:
  "''g1'' \<noteq> []
   \<and> getGroup (example_server (Some (example_membership ''member''))) (log page_initial) ''g1''
       = Fulfilled (example_group (Some (example_membership ''member'')))
   \<and> g_membership (example_group (Some (example_membership ''member'')))
       = Some (example_membership ''member'')
   \<and> m_role (example_membership ''member'') = ''member''
   \<and> requests_of (new_effects page_initial
        (loadGroupData (example_server (Some (example_membership ''member''))) (Some ''g1'')
           page_initial)) = [GetGroup ''g1'', GetGroupMembers ''g1'']
   \<and> invitations (loadGroupData (example_server (Some (example_membership ''member'')))
        (Some ''g1'') page_initial) = []
   \<and> joinRequests (loadGroupData (example_server (Some (example_membership ''member'')))
        (Some ''g1'') page_initial) = []"
proof -
  have n: "''g1'' \<noteq> []" by simp
  have g: "getGroup (example_server (Some (example_membership ''member''))) (log page_initial) ''g1''
             = Fulfilled (example_group (Some (example_membership ''member'')))"
    by (simp add: example_server_def)
  have r: "\<forall>m. g_membership (example_group (Some (example_membership ''member''))) = Some m \<longrightarrow>
             m_role m \<noteq> ''administrator'' \<and> m_role m \<noteq> ''manager''"
    by (simp add: example_group_def example_membership_def)
  show ?thesis
    using n g non_manager_load_skips_invitations [OF n g r]
    by (simp add: page_initial_def example_group_def example_membership_def)
qed


subsection \<open>Destructive actions\<close>

lemma loadGroupData_log_from:
  assumes "log s1 = log s @ es"
  shows "\<exists>fs. log (loadGroupData srv groupId s1) = log s @ es @ fs"
  using loadGroupData_log [of srv groupId s1] assms by auto

lemma confirmation_gate:
  assumes cancelled: "\<not> c \<Longrightarrow> s' = s \<or> s' = emit (Confirm msg) s"
    and accepted: "c \<Longrightarrow> s' = s \<or> (\<exists>es. log s' = log s @ Confirm msg # es)"
  shows "(\<not> c \<longrightarrow> \<not> list_ex is_request (new_effects s s') \<and> s'\<lparr>log := log s\<rparr> = s)
       \<and> (list_ex is_request (new_effects s s') \<longrightarrow>
            c \<and> (\<exists>es. new_effects s s' = Confirm msg # es))"
proof (cases c)
  case False
  from cancelled [OF False] have "\<not> list_ex is_request (new_effects s s') \<and> s'\<lparr>log := log s\<rparr> = s"
    by (auto simp: new_effects_def emit_def)
  with False show ?thesis by simp
next
  case True
  from accepted [OF True] show ?thesis
  proof
    assume "s' = s"
    then show ?thesis using True by (simp add: new_effects_def)
  next
    assume "\<exists>es. log s' = log s @ Confirm msg # es"
    then show ?thesis using True by auto
  qed
qed

lemma handleDeleteGroup_cancelled:
  "\<not> confirm ''Are you sure you want to delete this group? This action cannot be undone.'' \<Longrightarrow>
   handleDeleteGroup srv confirm s = s \<or>
   handleDeleteGroup srv confirm s =
     emit (Confirm ''Are you sure you want to delete this group? This action cannot be undone.'') s"
  by (simp add: handleDeleteGroup_def split: option.splits)

lemma handleDeleteGroup_accepted:
  "handleDeleteGroup srv confirm s = s \<or>
   (\<exists>es. log (handleDeleteGroup srv confirm s) =
      log s @ Confirm ''Are you sure you want to delete this group? This action cannot be undone.'' # es)"
  by (simp add: handleDeleteGroup_def emit_def Let_def split: option.splits settled.splits)

lemma handleRemoveMember_cancelled:
  "\<not> confirm ''Are you sure you want to remove this member?'' \<Longrightarrow>
   handleRemoveMember srv confirm groupId userId s = s \<or>
   handleRemoveMember srv confirm groupId userId s =
     emit (Confirm ''Are you sure you want to remove this member?'') s"
  by (simp add: handleRemoveMember_def split: option.splits)

lemma handleRemoveMember_accepted:
  "handleRemoveMember srv confirm groupId userId s = s \<or>
   (\<exists>es. log (handleRemoveMember srv confirm groupId userId s) =
      log s @ Confirm ''Are you sure you want to remove this member?'' # es)"
proof (cases "group s")
  case None
  then show ?thesis by (simp add: handleRemoveMember_def)
next
  case (Some g)
  let ?msg = "''Are you sure you want to remove this member?''"
  let ?s1 = "emit (Confirm ?msg) s"
  let ?s2 = "emit (Request (RemoveGroupMember (g_id g) userId)) ?s1"
  show ?thesis
  proof (cases "confirm ?msg")
    case False
    with Some show ?thesis by (simp add: handleRemoveMember_def emit_def)
  next
    case True
    show ?thesis
    proof (cases "removeGroupMember srv (log ?s1) (g_id g) userId")
      case (Rejected err)
      with Some True show ?thesis by (simp add: handleRemoveMember_def emit_def)
    next
      case (Fulfilled u)
      have "log (emit (ToastSuccess ''Member removed successfully'') ?s2) =
              log s @ [Confirm ?msg, Request (RemoveGroupMember (g_id g) userId),
                       ToastSuccess ''Member removed successfully'']"
        by (simp add: emit_def)
      from loadGroupData_log_from [OF this, of srv groupId]
      show ?thesis using Some True Fulfilled by (auto simp: handleRemoveMember_def)
    qed
  qed
qed

lemma handleRevokeInvitation_cancelled:
  "\<not> confirm ''Are you sure you want to revoke this invitation?'' \<Longrightarrow>
   handleRevokeInvitation srv confirm groupId invitationId s = s \<or>
   handleRevokeInvitation srv confirm groupId invitationId s =
     emit (Confirm ''Are you sure you want to revoke this invitation?'') s"
  by (simp add: handleRevokeInvitation_def split: option.splits)

lemma handleRevokeInvitation_accepted:
  "handleRevokeInvitation srv confirm groupId invitationId s = s \<or>
   (\<exists>es. log (handleRevokeInvitation srv confirm groupId invitationId s) =
      log s @ Confirm ''Are you sure you want to revoke this invitation?'' # es)"
proof (cases "group s")
  case None
  then show ?thesis by (simp add: handleRevokeInvitation_def)
next
  case (Some g)
  let ?msg = "''Are you sure you want to revoke this invitation?''"
  let ?s1 = "emit (Confirm ?msg) s"
  let ?s2 = "emit (Request (RevokeInvitation (g_id g) invitationId)) ?s1"
  show ?thesis
  proof (cases "confirm ?msg")
    case False
    with Some show ?thesis by (simp add: handleRevokeInvitation_def emit_def)
  next
    case True
    show ?thesis
    proof (cases "revokeInvitation srv (log ?s1) (g_id g) invitationId")
      case (Rejected err)
      with Some True show ?thesis by (simp add: handleRevokeInvitation_def emit_def)
    next
      case (Fulfilled u)
      have "log (emit (ToastSuccess ''Invitation revoked successfully'') ?s2) =
              log s @ [Confirm ?msg, Request (RevokeInvitation (g_id g) invitationId),
                       ToastSuccess ''Invitation revoked successfully'']"
        by (simp add: emit_def)
      from loadGroupData_log_from [OF this, of srv groupId]
      show ?thesis using Some True Fulfilled by (auto simp: handleRevokeInvitation_def)
    qed
  qed
qed

lemma handleDenyJoinRequest_cancelled:
  "\<not> confirm ''Are you sure you want to deny this join request?'' \<Longrightarrow>
   handleDenyJoinRequest srv confirm groupId requestId comment s = s \<or>
   handleDenyJoinRequest srv confirm groupId requestId comment s =
     emit (Confirm ''Are you sure you want to deny this join request?'') s"
  by (simp add: handleDenyJoinRequest_def split: option.splits)

lemma handleDenyJoinRequest_accepted:
  "handleDenyJoinRequest srv confirm groupId requestId comment s = s \<or>
   (\<exists>es. log (handleDenyJoinRequest srv confirm groupId requestId comment s) =
      log s @ Confirm ''Are you sure you want to deny this join request?'' # es)"
proof (cases "group s")
  case None
  then show ?thesis by (simp add: handleDenyJoinRequest_def)
next
  case (Some g)
  let ?msg = "''Are you sure you want to deny this join request?''"
  let ?s1 = "emit (Confirm ?msg) s"
  let ?s2 = "emit (Request (DenyJoinRequest (g_id g) requestId comment)) ?s1"
  show ?thesis
  proof (cases "confirm ?msg")
    case False
    with Some show ?thesis by (simp add: handleDenyJoinRequest_def emit_def)
  next
    case True
    show ?thesis
    proof (cases "denyJoinRequest srv (log ?s1) (g_id g) requestId comment")
      case (Rejected err)
      with Some True show ?thesis by (simp add: handleDenyJoinRequest_def emit_def)
    next
      case (Fulfilled u)
      have "log (emit (ToastSuccess ''Join request denied successfully'') ?s2) =
              log s @ [Confirm ?msg, Request (DenyJoinRequest (g_id g) requestId comment),
                       ToastSuccess ''Join request denied successfully'']"
        by (simp add: emit_def)
      from loadGroupData_log_from [OF this, of srv groupId]
      show ?thesis using Some True Fulfilled by (auto simp: handleDenyJoinRequest_def)
    qed
  qed
qed

text \<open>
  C8. Revoking an invitation, deleting the group, removing a member and denying a join
  request each ask for confirmation first. When the user cancels, the handler issues no
  network call and leaves the page state (the invitation list with it) as it was: only the
  dialog itself happened. Whenever a handler issues a network call, the user had confirmed,
  and the dialog came before anything else the handler did.
\<close>

theorem destructive_actions_need_confirmation:
  "(let s' = handleRevokeInvitation srv confirm groupId invitationId s;
        msg = ''Are you sure you want to revoke this invitation?''
    in (\<not> confirm msg \<longrightarrow>
          \<not> list_ex is_request (new_effects s s') \<and> s'\<lparr>log := log s\<rparr> = s
          \<and> invitations s' = invitations s)
       \<and> (list_ex is_request (new_effects s s') \<longrightarrow>
            confirm msg \<and> (\<exists>es. new_effects s s' = Confirm msg # es)))
   \<and> (let s' = handleDeleteGroup srv confirm s;
          msg = ''Are you sure you want to delete this group? This action cannot be undone.''
      in (\<not> confirm msg \<longrightarrow> \<not> list_ex is_request (new_effects s s') \<and> s'\<lparr>log := log s\<rparr> = s)
         \<and> (list_ex is_request (new_effects s s') \<longrightarrow>
              confirm msg \<and> (\<exists>es. new_effects s s' = Confirm msg # es)))
   \<and> (let s' = handleRemoveMember srv confirm groupId userId s;
          msg = ''Are you sure you want to remove this member?''
      in (\<not> confirm msg \<longrightarrow> \<not> list_ex is_request (new_effects s s') \<and> s'\<lparr>log := log s\<rparr> = s)
         \<and> (list_ex is_request (new_effects s s') \<longrightarrow>
              confirm msg \<and> (\<exists>es. new_effects s s' = Confirm msg # es)))
   \<and> (let s' = handleDenyJoinRequest srv confirm groupId requestId comment s;
          msg = ''Are you sure you want to deny this join request?''
      in (\<not> confirm msg \<longrightarrow> \<not> list_ex is_request (new_effects s s') \<and> s'\<lparr>log := log s\<rparr> = s)
         \<and> (list_ex is_request (new_effects s s') \<longrightarrow>
              confirm msg \<and> (\<exists>es. new_effects s s' = Confirm msg # es)))"
proof -
  let ?gate = "\<lambda>msg s'.
      (\<not> confirm msg \<longrightarrow> \<not> list_ex is_request (new_effects s s') \<and> s'\<lparr>log := log s\<rparr> = s)
      \<and> (list_ex is_request (new_effects s s') \<longrightarrow>
            confirm msg \<and> (\<exists>es. new_effects s s' = Confirm msg # es))"
  have revoke: "?gate ''Are you sure you want to revoke this invitation?''
                  (handleRevokeInvitation srv confirm groupId invitationId s)"
    by (rule confirmation_gate)
      (erule handleRevokeInvitation_cancelled, rule handleRevokeInvitation_accepted)
  have delete: "?gate ''Are you sure you want to delete this group? This action cannot be undone.''
                  (handleDeleteGroup srv confirm s)"
    by (rule confirmation_gate)
      (erule handleDeleteGroup_cancelled, rule handleDeleteGroup_accepted)
  have remove: "?gate ''Are you sure you want to remove this member?''
                  (handleRemoveMember srv confirm groupId userId s)"
    by (rule confirmation_gate)
      (erule handleRemoveMember_cancelled, rule handleRemoveMember_accepted)
  have deny: "?gate ''Are you sure you want to deny this join request?''
                (handleDenyJoinRequest srv confirm groupId requestId comment s)"
    by (rule confirmation_gate)
      (erule handleDenyJoinRequest_cancelled, rule handleDenyJoinRequest_accepted)
  have inv: "invitations (handleRevokeInvitation srv confirm groupId invitationId s) = invitations s"
    if "\<not> confirm ''Are you sure you want to revoke this invitation?''"
    using handleRevokeInvitation_cancelled [where confirm = confirm and srv = srv
        and groupId = groupId and invitationId = invitationId and s = s, OF that]
    by (auto simp: emit_def)
  show ?thesis
    unfolding Let_def
    using revoke delete remove deny inv by blast
qed

theorem destructive_actions_need_confirmation_witness:
  "\<not> cancel ''Are you sure you want to revoke this invitation?''
   \<and> new_effects loaded_page
        (handleRevokeInvitation (example_server (Some (example_membership ''manager''))) cancel
           (Some ''g1'') ''i1'' loaded_page)
       = [Confirm ''Are you sure you want to revoke this invitation?'']
   \<and> invitations (handleRevokeInvitation (example_server (Some (example_membership ''manager'')))
        cancel (Some ''g1'') ''i1'' loaded_page) = [example_invitation]
   \<and> list_ex is_request (new_effects loaded_page
        (handleRevokeInvitation (example_server (Some (example_membership ''manager''))) accept
           (Some ''g1'') ''i1'' loaded_page))
   \<and> accept ''Are you sure you want to revoke this invitation?''"
proof -
  let ?srv = "example_server (Some (example_membership ''manager''))"
  have loaded: "loaded_page =
      page_initial\<lparr>group := Some (example_group (Some (example_membership ''manager''))),
        members := [example_membership ''member''], invitations := [example_invitation],
        joinRequests := [], page_loading := False,
        log := [Request (GetGroup ''g1''), Request (GetGroupMembers ''g1''),
                Request (GetGroupInvitations ''g1''), Request (GetGroupJoinRequests ''g1'')]\<rparr>"
    by (simp add: loaded_page_def loadGroupData_def loadGroupData_try_def example_server_def
        can_manage_def example_group_def example_membership_def emit_def page_initial_def)
  have c: "\<not> cancel ''Are you sure you want to revoke this invitation?''"
    by (simp add: cancel_def)
  have cancelled: "handleRevokeInvitation ?srv cancel (Some ''g1'') ''i1'' loaded_page =
                     emit (Confirm ''Are you sure you want to revoke this invitation?'') loaded_page"
    by (simp add: handleRevokeInvitation_def cancel_def loaded page_initial_def)
  have requested: "list_ex is_request (new_effects loaded_page
        (handleRevokeInvitation ?srv accept (Some ''g1'') ''i1'' loaded_page))"
    by (simp add: handleRevokeInvitation_def accept_def loaded page_initial_def emit_def
        example_server_def example_group_def loadGroupData_def loadGroupData_try_def
        can_manage_def example_membership_def new_effects_def)
  have "accept ''Are you sure you want to revoke this invitation?''"
    using requested
      destructive_actions_need_confirmation [of ?srv accept "Some ''g1''" "''i1''" loaded_page]
    unfolding Let_def by blast
  with c cancelled requested show ?thesis
    by (simp add: emit_def new_effects_def loaded page_initial_def)
qed


section \<open>Properties of the rendering of invitations\<close>

lemma Invitations_row_expired:
  assumes "isInvitationExpired clk (inv_expires_at i)" and "inv_status i = ''pending''"
  shows "Invitations_row clk i =
           \<lparr> row_expiry = Expired, row_status_class = ''bg-red-100 text-red-800'',
             row_status_text = ''Expired'', row_button = False \<rparr>"
  using assms by (simp add: Invitations_row_def)

lemma AcceptInvitation_expired:
  assumes "\<not> is_loading" and "\<not> truthy_str err"
    and "isInvitationExpired clk (ii_expires_at info)"
  shows "AcceptInvitation_render clk is_loading err (Some info) usr =
           Invitation_card (Expired_on (ii_expires_at info)) Expired_panel"
  using assms by (simp add: AcceptInvitation_render_def)

lemma GroupDetail_row_without_clock:
  "GroupDetail_invitation_row clk i = GroupDetail_invitation_row clk' i"
  by (simp add: GroupDetail_invitation_row_def)

lemma example_invitation_expired:
  "isInvitationExpired example_clock (inv_expires_at example_invitation)"
  by (simp add: isInvitationExpired_def example_clock_def example_invitation_def)

text \<open>
  C5. An invitation whose \<^verbatim>\<open>expires_at\<close> is before the client's time is to be shown as
  expired even when its status is still \<^verbatim>\<open>pending\<close>. The invitations inbox does so; the
  invitations tab of the group detail page does not. For the pending invitation that ran out
  in 2020, seen in 2026, the tab shows the badge \<^verbatim>\<open>pending\<close> in the pending colours, the line
  \<^verbatim>\<open>Expires\<close> with the date and the Revoke button, while the inbox shows \<^verbatim>\<open>Expired\<close>.
\<close>

theorem GroupDetail_row_shows_expired_as_pending:
  "isInvitationExpired example_clock (inv_expires_at example_invitation)
   \<and> inv_status example_invitation = ''pending''
   \<and> GroupDetail_invitation_row example_clock example_invitation =
       \<lparr> row_expiry = Expires ''2020-01-01T00:00:00Z'',
         row_status_class = ''bg-yellow-100 text-yellow-800'',
         row_status_text = ''pending'', row_button = True \<rparr>
   \<and> Invitations_row example_clock example_invitation =
       \<lparr> row_expiry = Expired, row_status_class = ''bg-red-100 text-red-800'',
         row_status_text = ''Expired'', row_button = False \<rparr>"
proof -
  have st: "inv_status example_invitation = ''pending''"
    by (simp add: example_invitation_def)
  have row: "GroupDetail_invitation_row example_clock example_invitation =
       \<lparr> row_expiry = Expires ''2020-01-01T00:00:00Z'',
         row_status_class = ''bg-yellow-100 text-yellow-800'',
         row_status_text = ''pending'', row_button = True \<rparr>"
    by (simp add: GroupDetail_invitation_row_def getStatusBadgeClass_def example_invitation_def)
  from example_invitation_expired st row Invitations_row_expired [OF example_invitation_expired st]
  show ?thesis by simp
qed


end
